theory Spec2Isabelle
  imports Main
begin

section \<open>Python strings\<close>

text \<open>
  A Python \<^verbatim>\<open>str\<close> is a sequence of Unicode code points; \<^verbatim>\<open>len\<close> counts code points.
  Literals of the source are written with \<open>of_ascii\<close>, code points beyond ASCII (the emoji
  of the templates) as numbers.
\<close>

type_synonym codepoint = nat
type_synonym pystr = "codepoint list"

definition of_ascii :: "string \<Rightarrow> pystr" where
  "of_ascii s = map of_char s"

text \<open>
  \<^verbatim>\<open>str.lower()\<close> lowers a string one code point at a time and concatenates the results.
  An ASCII code point is lowered by itself: \<^verbatim>\<open>A\<close>..\<^verbatim>\<open>Z\<close> move up by 32, every other one
  stays. For the code points from 128 on the result comes from the Unicode case tables
  of the Python runtime, which are not part of this repository: they are the parameter
  \<open>U\<close>, which receives the code point with the text before and after it (the runtime
  lowers capital sigma by its context) and may return several code points.
\<close>

type_synonym unicode_lower = "pystr \<Rightarrow> codepoint \<Rightarrow> pystr \<Rightarrow> pystr"

definition lower_cp :: "unicode_lower \<Rightarrow> pystr \<Rightarrow> codepoint \<Rightarrow> pystr \<Rightarrow> pystr" where
  "lower_cp U pre c post =
     (if c < 128 then [if 65 \<le> c \<and> c \<le> 90 then c + 32 else c] else U pre c post)"

fun lower_from :: "unicode_lower \<Rightarrow> pystr \<Rightarrow> pystr \<Rightarrow> pystr" where
  "lower_from U pre [] = []"
| "lower_from U pre (c # cs) = lower_cp U pre c cs @ lower_from U (pre @ [c]) cs"

definition lower :: "unicode_lower \<Rightarrow> pystr \<Rightarrow> pystr" where
  "lower U s = lower_from U [] s"

text \<open>
  A table that leaves every code point from 128 on as it is. It is used to evaluate the
  functions on concrete ASCII inputs, where the table is never consulted.
\<close>

definition ascii_only_lower :: unicode_lower where
  "ascii_only_lower pre c post = [c]"

text \<open>\<^verbatim>\<open>s.startswith(sub)\<close> and the substring test \<^verbatim>\<open>sub in s\<close>.\<close>

fun startswith :: "pystr \<Rightarrow> pystr \<Rightarrow> bool" where
  "startswith s [] = True"
| "startswith [] (k # ks) = False"
| "startswith (c # cs) (k # ks) = (c = k \<and> startswith cs ks)"

fun contains :: "pystr \<Rightarrow> pystr \<Rightarrow> bool" where
  "contains [] sub = (sub = [])"
| "contains (c # cs) sub = (startswith (c # cs) sub \<or> contains cs sub)"

text \<open>
  The code points that \<^verbatim>\<open>str.strip()\<close> and \<^verbatim>\<open>str.isspace()\<close> take as whitespace, and
  \<^verbatim>\<open>str.strip()\<close> itself.
\<close>

definition is_space :: "codepoint \<Rightarrow> bool" where
  "is_space c =
     ((9 \<le> c \<and> c \<le> 13) \<or> (28 \<le> c \<and> c \<le> 32) \<or> c = 133 \<or> c = 160 \<or> c = 5760
      \<or> (8192 \<le> c \<and> c \<le> 8202) \<or> c = 8232 \<or> c = 8233 \<or> c = 8239 \<or> c = 8287
      \<or> c = 12288)"

definition strip :: "pystr \<Rightarrow> pystr" where
  "strip s = rev (dropWhile is_space (rev (dropWhile is_space s)))"


section \<open>The FAQ responder of \<^verbatim>\<open>AI_app.py\<close>\<close>

subsection \<open>The response templates\<close>

definition hours_template :: pystr where
  "hours_template = [128338] @ of_ascii '' **Our Hours:** Monday-Friday 9 AM to 6 PM, Saturday 10 AM to 4 PM. We're closed on Sundays and major holidays. For emergency assistance, please call our 24/7 helpline at (555) 999-HELP.''"

definition volunteer_template :: pystr where
  "volunteer_template = [129309] @ of_ascii '' **Volunteer Opportunities:** We'd love your help! Current openings include tutoring, food service, event planning, and administrative support. Please visit our website to complete the volunteer application and background check.''"

definition donate_template :: pystr where
  "donate_template = [128157] @ of_ascii '' **Donations:** Thank you for your generosity! You can donate online at our secure portal, by phone (555) 123-4567, or mail checks to 123 Community St. All donations are tax-deductible!''"

definition programs_template :: pystr where
  "programs_template = [128203] @ of_ascii '' **Our Programs:** Youth Mentoring (ages 12-18), Job Training, Food Assistance, Housing Support, Educational Workshops, and Senior Services. Which program would you like to learn more about?''"

definition contact_template :: pystr where
  "contact_template = [128222] @ of_ascii '' **Contact Information:** Phone: (555) 123-4567 | Email: info@nonprofitcommunity.org | Address: 123 Community St, City, State 12345 | Emergency Helpline: (555) 999-HELP (24/7)''"

definition emergency_template :: pystr where
  "emergency_template = [127384] @ of_ascii '' **Emergency Resources:** Crisis Hotline: (555) 999-HELP (24/7) | Emergency Food: Available during office hours | Mental Health: Free counseling referrals | If this is life-threatening, please call 911.''"

definition default_message :: pystr where
  "default_message = of_ascii ''Thanks for your question! I can help you with information about our **hours, volunteer opportunities, donations, programs, contact information,** and **emergency resources**. What would you like to know more about?''"

definition ai_prefix :: pystr where
  "ai_prefix = [129302] @ of_ascii '' **AI Assistant:** ''"

definition ai_suffix :: pystr where
  "ai_suffix = [10, 10, 128161] @ of_ascii '' *For specific information about our programs, try asking about hours, volunteering, donations, or services.*''"

definition nonprofit_context :: pystr where
  "nonprofit_context = of_ascii ''You are a helpful assistant for a nonprofit organization that provides community services including youth mentoring, job training, food assistance, housing support, and emergency services. ''"

subsection \<open>The generative backend\<close>

text \<open>
  The tokenizer and the model of the \<^verbatim>\<open>transformers\<close> library are outside the
  repository. Each of their operations either returns or raises; what they raise are
  instances of \<^verbatim>\<open>Exception\<close>, the class both handlers of the source name. Sampling makes
  \<^verbatim>\<open>model.generate\<close> differ from call to call: a value of \<open>hf_model\<close> fixes what the
  operations do during one call of the responder. The other arguments of
  \<^verbatim>\<open>model.generate\<close> are constants (one returned sequence, temperature 0.7, sampling on).
\<close>

datatype exn = TypeError | IndexError | Exception pystr

type_synonym token = nat

record hf_model =
  eos_token :: "pystr option"
  encode :: "pystr \<Rightarrow> exn + token list"
  generate :: "token list \<Rightarrow> nat \<Rightarrow> exn + token list list"
  decode :: "token list \<Rightarrow> exn + pystr"

text \<open>
  The two globals the responder reads: the import flag and the cached model
  (\<^verbatim>\<open>None\<close> when the libraries are missing or loading failed).
\<close>

record env =
  HF_AVAILABLE :: bool
  ai_model :: "hf_model option"

text \<open>The calls made to the backend, in order, with their arguments.\<close>

datatype call = Encode pystr | Generate "token list" nat | Decode "token list"

text \<open>
  The body of the \<^verbatim>\<open>try\<close> block of \<^verbatim>\<open>generate_ai_response\<close>, in three definitions.
  Each gives the value returned or the exception raised; the first two give the backend
  calls made up to there as well.

  \<open>run_model\<close> is lines 157 to 172: the prompt with the end-of-sequence token is encoded,
  the model generates with \<^verbatim>\<open>max_length\<close> set to the number of input tokens plus 50, and
  the first returned sequence is decoded. Concatenating \<^verbatim>\<open>None\<close> to a string raises
  \<^verbatim>\<open>TypeError\<close>, and \<^verbatim>\<open>outputs[0]\<close> on an empty batch raises \<^verbatim>\<open>IndexError\<close>.
\<close>

definition run_model :: "hf_model \<Rightarrow> pystr \<Rightarrow> (exn + pystr) \<times> call list" where
  "run_model m full_input =
     (case eos_token m of
        None \<Rightarrow> (Inl TypeError, [])
      | Some eos \<Rightarrow>
         (case encode m (full_input @ eos) of
            Inl e \<Rightarrow> (Inl e, [Encode (full_input @ eos)])
          | Inr inputs \<Rightarrow>
             (case generate m inputs (length inputs + 50) of
                Inl e \<Rightarrow> (Inl e, [Encode (full_input @ eos), Generate inputs (length inputs + 50)])
              | Inr outputs \<Rightarrow>
                 (case outputs of
                    [] \<Rightarrow> (Inl IndexError,
                           [Encode (full_input @ eos), Generate inputs (length inputs + 50)])
                  | out0 # _ \<Rightarrow>
                     (case decode m out0 of
                        Inl e \<Rightarrow> (Inl e, [Encode (full_input @ eos),
                                          Generate inputs (length inputs + 50), Decode out0])
                      | Inr response \<Rightarrow>
                          (Inr response, [Encode (full_input @ eos),
                                          Generate inputs (length inputs + 50), Decode out0]))))))"

text \<open>
  \<open>clean_response\<close> is lines 174 to 179: the slice from the length of the prompt on (empty
  when the decoded text is shorter than the prompt), stripped of whitespace, and cut to
  200 code points with three dots appended when it is longer.
\<close>

definition clean_response :: "pystr \<Rightarrow> pystr \<Rightarrow> pystr" where
  "clean_response full_input decoded =
     (let response = strip (drop (length full_input) decoded)
      in if length response > 200 then take 200 response @ of_ascii ''...'' else response)"

definition generate_try :: "hf_model \<Rightarrow> pystr \<Rightarrow> (exn + pystr) \<times> call list" where
  "generate_try m question =
     (let full_input = nonprofit_context @ question in
      case run_model m full_input of
        (Inl e, calls) \<Rightarrow> (Inl e, calls)
      | (Inr response, calls) \<Rightarrow> (Inr (clean_response full_input response), calls))"

text \<open>
  \<^verbatim>\<open>generate_ai_response\<close>: \<^verbatim>\<open>None\<close> without a backend, and \<^verbatim>\<open>None\<close> again when the
  \<^verbatim>\<open>try\<close> block raises.
\<close>

definition generate_ai_response :: "env \<Rightarrow> pystr \<Rightarrow> (exn + pystr option) \<times> call list" where
  "generate_ai_response ev question =
     (case ai_model ev of
        None \<Rightarrow> (Inr None, [])
      | Some m \<Rightarrow>
         (if \<not> HF_AVAILABLE ev then (Inr None, [])
          else (case generate_try m question of
                  (Inl e, calls) \<Rightarrow> (Inr None, calls)
                | (Inr response, calls) \<Rightarrow> (Inr (Some response), calls))))"

subsection \<open>\<^verbatim>\<open>get_chatbot_answer\<close>\<close>

text \<open>
  Lines 131 to 142: the branch taken when no keyword matched. An exception out of
  \<^verbatim>\<open>generate_ai_response\<close> is caught and passed over; every path that does not return the
  generated text ends at the default message.
\<close>

definition ai_fallback :: "env \<Rightarrow> pystr \<Rightarrow> (exn + pystr) \<times> call list" where
  "ai_fallback ev question =
     (if ai_model ev \<noteq> None \<and> HF_AVAILABLE ev then
        (case generate_ai_response ev question of
           (Inl e, calls) \<Rightarrow> (Inr default_message, calls)
         | (Inr ai_response, calls) \<Rightarrow>
            (case ai_response of
               None \<Rightarrow> (Inr default_message, calls)
             | Some r \<Rightarrow>
                (if r \<noteq> [] \<and> length (strip r) > 0
                 then (Inr (ai_prefix @ r @ ai_suffix), calls)
                 else (Inr default_message, calls))))
      else (Inr default_message, []))"

definition get_chatbot_answer :: "unicode_lower \<Rightarrow> env \<Rightarrow> pystr \<Rightarrow> (exn + pystr) \<times> call list" where
  "get_chatbot_answer U ev question =
     (let question_lower = lower U question in
      if contains question_lower (of_ascii ''hours'') \<or> contains question_lower (of_ascii ''time'')
      then (Inr hours_template, [])
      else if contains question_lower (of_ascii ''volunteer'')
      then (Inr volunteer_template, [])
      else if contains question_lower (of_ascii ''donate'')
      then (Inr donate_template, [])
      else if contains question_lower (of_ascii ''programs'')
              \<or> contains question_lower (of_ascii ''services'')
      then (Inr programs_template, [])
      else if contains question_lower (of_ascii ''contact'')
              \<or> contains question_lower (of_ascii ''phone'')
              \<or> contains question_lower (of_ascii ''email'')
      then (Inr contact_template, [])
      else if contains question_lower (of_ascii ''emergency'')
              \<or> contains question_lower (of_ascii ''crisis'')
              \<or> contains question_lower (of_ascii ''urgent'')
      then (Inr emergency_template, [])
      else ai_fallback ev question)"


section \<open>The FAQ responder of \<^verbatim>\<open>app.py\<close>\<close>

definition app_hours_template :: pystr where
  "app_hours_template = of_ascii ''We're open Monday-Friday 9 AM to 6 PM, Saturday 10 AM to 4 PM''"

definition app_volunteer_template :: pystr where
  "app_volunteer_template = of_ascii ''We'd love your help! We need volunteers for tutoring, food service, and events. Visit our website to apply!''"

definition app_donate_template :: pystr where
  "app_donate_template = of_ascii ''Thank you! You can donate online, by phone (555-123-4567), or visit our office at 123 Community St.''"

definition app_programs_template :: pystr where
  "app_programs_template = of_ascii ''We offer youth mentoring, job training, food assistance, and housing support. Which interests you?''"

text \<open>
  The f-string of the last branch. The source has assigned the lowered text to
  \<^verbatim>\<open>question\<close> by then, so it is the lowered question that is quoted.
\<close>

definition app_unmatched_message :: "pystr \<Rightarrow> pystr" where
  "app_unmatched_message question =
     of_ascii ''Thanks for asking about '' @ [39] @ question @ [39] @ of_ascii ''. Try asking about our hours, volunteer opportunities, donations, or programs!''"

definition app_get_chatbot_answer :: "unicode_lower \<Rightarrow> pystr \<Rightarrow> pystr" where
  "app_get_chatbot_answer U question0 =
     (let question = lower U question0 in
      if contains question (of_ascii ''hours'') \<or> contains question (of_ascii ''time'')
      then app_hours_template
      else if contains question (of_ascii ''volunteer'')
      then app_volunteer_template
      else if contains question (of_ascii ''donate'')
      then app_donate_template
      else if contains question (of_ascii ''programs'') \<or> contains question (of_ascii ''services'')
      then app_programs_template
      else app_unmatched_message question)"


section \<open>The specification's view: categories and an ordered keyword table\<close>

text \<open>
  The source has no classifier of its own: the categories are the branches of
  \<^verbatim>\<open>get_chatbot_answer\<close>. The definitions of this section follow the words of the
  specification (\<open>classify\<close>, then \<open>respond\<close>) and are compared with the source functions
  below.
\<close>

datatype category = Hours | Volunteer | Donate | Programs | Contact | Emergency | Unmatched

fun classify :: "(category \<times> pystr list) list \<Rightarrow> pystr \<Rightarrow> category" where
  "classify [] s = Unmatched"
| "classify ((c, kws) # rest) s = (if list_ex (contains s) kws then c else classify rest s)"

definition keyword_table :: "(category \<times> pystr list) list" where
  "keyword_table =
     [(Hours, [of_ascii ''hours'', of_ascii ''time'']),
      (Volunteer, [of_ascii ''volunteer'']),
      (Donate, [of_ascii ''donate'']),
      (Programs, [of_ascii ''programs'', of_ascii ''services'']),
      (Contact, [of_ascii ''contact'', of_ascii ''phone'', of_ascii ''email'']),
      (Emergency, [of_ascii ''emergency'', of_ascii ''crisis'', of_ascii ''urgent''])]"

definition app_keyword_table :: "(category \<times> pystr list) list" where
  "app_keyword_table =
     [(Hours, [of_ascii ''hours'', of_ascii ''time'']),
      (Volunteer, [of_ascii ''volunteer'']),
      (Donate, [of_ascii ''donate'']),
      (Programs, [of_ascii ''programs'', of_ascii ''services''])]"

fun template :: "category \<Rightarrow> pystr" where
  "template Hours = hours_template"
| "template Volunteer = volunteer_template"
| "template Donate = donate_template"
| "template Programs = programs_template"
| "template Contact = contact_template"
| "template Emergency = emergency_template"
| "template Unmatched = default_message"

definition respond :: "env \<Rightarrow> pystr \<Rightarrow> category \<Rightarrow> (exn + pystr) \<times> call list" where
  "respond ev question c =
     (if c = Unmatched then ai_fallback ev question else (Inr (template c), []))"

text \<open>
  The responses of \<^verbatim>\<open>app.py\<close>, which has the first four categories only; its answer to
  an unmatched question quotes the lowered question \<open>s\<close>.
\<close>

fun app_respond :: "pystr \<Rightarrow> category \<Rightarrow> pystr" where
  "app_respond s Hours = app_hours_template"
| "app_respond s Volunteer = app_volunteer_template"
| "app_respond s Donate = app_donate_template"
| "app_respond s Programs = app_programs_template"
| "app_respond s c = app_unmatched_message s"

text \<open>
  A keyword occurs in a text in any letter case: somewhere in the text each letter of
  the keyword stands in turn, in lower case or in upper case (the keywords are lower-case
  ASCII words).
\<close>

fun starts_any_case :: "pystr \<Rightarrow> pystr \<Rightarrow> bool" where
  "starts_any_case s [] = True"
| "starts_any_case [] (k # ks) = False"
| "starts_any_case (c # cs) (k # ks) = ((c = k \<or> c + 32 = k) \<and> starts_any_case cs ks)"

fun occurs_any_case :: "pystr \<Rightarrow> pystr \<Rightarrow> bool" where
  "occurs_any_case [] kw = (kw = [])"
| "occurs_any_case (c # cs) kw = (starts_any_case (c # cs) kw \<or> occurs_any_case cs kw)"


section \<open>The upload panel\<close>

text \<open>
  A table as \<^verbatim>\<open>pandas\<close> holds it: the column names and the rows, a missing cell being
  \<open>None\<close>. The uploaded file has a size and its bytes. \<^verbatim>\<open>pd.read_csv\<close> is outside the
  repository: it is the parameter \<open>read_csv\<close>, which returns a table or raises.
\<close>

type_synonym cell = "pystr option"

record dataframe =
  columns :: "pystr list"
  rows :: "cell list list"

record uploaded =
  size_bytes :: nat
  content :: "nat list"

text \<open>The session state of Streamlit, of which the panels use the key \<^verbatim>\<open>'data'\<close> only.\<close>

record session_state =
  data :: "dataframe option"

text \<open>
  What the panel puts on the page, one constructor for each display call, with the values
  the call is given in place of the formatted text. Which of the three boxes carries the
  completeness percentage is decided in floating point; \<open>Completeness\<close> holds the two
  counts it is computed from, the missing cells and all cells.
\<close>

datatype widget =
    Success_uploaded nat nat
  | Write_preview
  | Dataframe "cell list list"
  | Error_reading exn
  | Info_upload_hint
  | Write_expected_format
  | Table_sample
  | Error_empty
  | Success_processed
  | Metric_rows nat
  | Metric_columns nat
  | Metric_size nat
  | Markdown_preview
  | Markdown_quality
  | Success_no_missing
  | Warning_missing nat
  | Completeness nat nat
  | Error_processing exn
  | Info_tip

text \<open>
  The display calls are Streamlit's and may raise as well: \<open>raises w\<close> is the exception
  that showing \<open>w\<close> raises, if any. \<open>show_all\<close> shows widgets in order up to the first one
  that raises.
\<close>

fun show_all :: "(widget \<Rightarrow> exn option) \<Rightarrow> widget list \<Rightarrow> widget list \<times> exn option" where
  "show_all raises [] = ([], None)"
| "show_all raises (w # ws) =
     (case raises w of
        Some e \<Rightarrow> ([], Some e)
      | None \<Rightarrow> (case show_all raises ws of (shown, r) \<Rightarrow> (w # shown, r)))"

definition missing_values :: "dataframe \<Rightarrow> nat" where
  "missing_values d = length (filter (\<lambda>c. c = None) (concat (rows d)))"

text \<open>The upload handler of \<^verbatim>\<open>app.py\<close> (lines 63 to 95): the new session state and the page.\<close>

definition app_upload ::
  "(uploaded \<Rightarrow> exn + dataframe) \<Rightarrow> (widget \<Rightarrow> exn option) \<Rightarrow> session_state
     \<Rightarrow> uploaded option \<Rightarrow> session_state \<times> widget list" where
  "app_upload read_csv raises st uploaded_file =
     (case uploaded_file of
        None \<Rightarrow> (st, [Info_upload_hint, Write_expected_format, Table_sample])
      | Some f \<Rightarrow>
         (case read_csv f of
            Inl e \<Rightarrow> (st, [Error_reading e])
          | Inr d \<Rightarrow>
             (case show_all raises
                     [Success_uploaded (length (rows d)) (length (columns d)),
                      Write_preview, Dataframe (take 5 (rows d))] of
                (shown, Some e) \<Rightarrow> (st, shown @ [Error_reading e])
              | (shown, None) \<Rightarrow> (st\<lparr>data := Some d\<rparr>, shown))))"

text \<open>
  The upload handler of \<^verbatim>\<open>AI_app.py\<close> (lines 318 to 371). The check for an empty table
  shows an error and goes on.
\<close>

definition AI_upload ::
  "(uploaded \<Rightarrow> exn + dataframe) \<Rightarrow> (widget \<Rightarrow> exn option) \<Rightarrow> session_state
     \<Rightarrow> uploaded option \<Rightarrow> session_state \<times> widget list" where
  "AI_upload read_csv raises st uploaded_file =
     (case uploaded_file of
        None \<Rightarrow> (st, [])
      | Some f \<Rightarrow>
         (case read_csv f of
            Inl e \<Rightarrow> (st, [Error_processing e, Info_tip])
          | Inr d \<Rightarrow>
             (case show_all raises
                     ((if length (rows d) = 0 then [Error_empty] else []) @
                      [Success_processed,
                       Metric_rows (length (rows d)), Metric_columns (length (columns d)),
                       Metric_size (size_bytes f),
                       Markdown_preview, Dataframe (take 10 (rows d)),
                       Markdown_quality,
                       (if missing_values d = 0 then Success_no_missing
                        else Warning_missing (missing_values d)),
                       Completeness (missing_values d)
                         (length (rows d) * length (columns d))]) of
                (shown, Some e) \<Rightarrow> (st, shown @ [Error_processing e, Info_tip])
              | (shown, None) \<Rightarrow> (st\<lparr>data := Some d\<rparr>, shown))))"


section \<open>Configurations for concrete runs\<close>

text \<open>
  No backend: the import of the libraries failed. A backend whose every operation
  raises. A backend that returns a fixed decoded text, whatever it is asked.
\<close>

definition no_backend :: env where
  "no_backend = \<lparr>HF_AVAILABLE = False, ai_model = None\<rparr>"

definition raising_model :: hf_model where
  "raising_model =
     \<lparr>eos_token = Some (of_ascii ''<|endoftext|>''),
      encode = (\<lambda>s. Inl (Exception (of_ascii ''encode failed''))),
      generate = (\<lambda>inputs n. Inl (Exception (of_ascii ''generate failed''))),
      decode = (\<lambda>ts. Inl (Exception (of_ascii ''decode failed'')))\<rparr>"


definition with_model :: "hf_model \<Rightarrow> env" where
  "with_model m = \<lparr>HF_AVAILABLE = True, ai_model = Some m\<rparr>"

text \<open>A parser that rejects every file, and a table of one row.\<close>

definition failing_read_csv :: "uploaded \<Rightarrow> exn + dataframe" where
  "failing_read_csv f = Inl (Exception (of_ascii ''Error tokenizing data''))"

definition sample_table :: dataframe where
  "sample_table =
     \<lparr>columns = [of_ascii ''Name'', of_ascii ''Age''],
      rows = [[Some (of_ascii ''John Smith''), Some (of_ascii ''25'')]]\<rparr>"


section \<open>Substrings and lowering\<close>

lemma startswith_iff: "startswith s sub \<longleftrightarrow> (\<exists>post. s = sub @ post)"
  by (induction s sub rule: startswith.induct) auto

lemma startswith_contains: "startswith s sub \<Longrightarrow> contains s sub"
  by (cases s) (auto elim: startswith.elims)

lemma contains_append_left: "contains s sub \<Longrightarrow> contains (x @ s) sub"
  by (induction x) auto

text \<open>\<^verbatim>\<open>sub in s\<close> holds exactly when \<open>sub\<close> is a contiguous part of \<open>s\<close>.\<close>

lemma contains_iff: "contains s sub \<longleftrightarrow> (\<exists>pre post. s = pre @ sub @ post)"
proof (induction s)
  case Nil
  then show ?case by auto
next
  case (Cons c cs)
  show ?case
  proof
    assume "contains (c # cs) sub"
    then consider "startswith (c # cs) sub" | "contains cs sub" by auto
    then show "\<exists>pre post. c # cs = pre @ sub @ post"
    proof cases
      case 1
      then obtain post where "c # cs = [] @ sub @ post" by (auto simp: startswith_iff)
      then show ?thesis by blast
    next
      case 2
      then obtain pre post where "cs = pre @ sub @ post" using Cons.IH by blast
      then have "c # cs = (c # pre) @ sub @ post" by simp
      then show ?thesis by blast
    qed
  next
    assume "\<exists>pre post. c # cs = pre @ sub @ post"
    then obtain pre post where eq: "c # cs = pre @ sub @ post" by blast
    show "contains (c # cs) sub"
    proof (cases pre)
      case Nil
      with eq have "startswith (c # cs) sub" by (auto simp: startswith_iff)
      then show ?thesis by simp
    next
      case (Cons a pre')
      with eq have "cs = pre' @ sub @ post" by simp
      then have "contains cs sub" using Cons.IH by blast
      then show ?thesis by simp
    qed
  qed
qed

lemma contains_set: "contains s sub \<Longrightarrow> set sub \<subseteq> set s"
  by (auto simp: contains_iff)

lemma lower_cp_any_case:
  "97 \<le> k \<Longrightarrow> k \<le> 122 \<Longrightarrow> c = k \<or> c + 32 = k \<Longrightarrow> lower_cp U pre c post = [k]"
  by (auto simp: lower_cp_def)

lemma starts_any_case_lower:
  "\<forall>k\<in>set kw. 97 \<le> k \<and> k \<le> 122 \<Longrightarrow> starts_any_case s kw
     \<Longrightarrow> startswith (lower_from U p s) kw"
proof (induction s kw arbitrary: p rule: starts_any_case.induct)
  case (3 c cs k ks)
  then have "lower_cp U p c cs = [k]" by (intro lower_cp_any_case) auto
  with 3 show ?case by simp
qed auto

lemma occurs_any_case_lower_from:
  "\<forall>k\<in>set kw. 97 \<le> k \<and> k \<le> 122 \<Longrightarrow> occurs_any_case s kw
     \<Longrightarrow> contains (lower_from U p s) kw"
proof (induction s arbitrary: p)
  case Nil
  then show ?case by simp
next
  case (Cons c cs)
  from Cons.prems(2) consider "starts_any_case (c # cs) kw" | "occurs_any_case cs kw"
    by auto
  then show ?case
  proof cases
    case 1
    then show ?thesis
      using Cons.prems(1) starts_any_case_lower startswith_contains by blast
  next
    case 2
    then have "contains (lower_from U (p @ [c]) cs) kw" using Cons by blast
    then show ?thesis by (simp add: contains_append_left)
  qed
qed

lemma occurs_any_case_lower:
  "\<forall>k\<in>set kw. 97 \<le> k \<and> k \<le> 122 \<Longrightarrow> occurs_any_case s kw
     \<Longrightarrow> contains (lower U s) kw"
  by (simp add: lower_def occurs_any_case_lower_from)

text \<open>Whitespace is lowered to itself when the case tables leave it alone.\<close>

lemma lower_from_spaces:
  "\<forall>c\<in>set s. is_space c \<Longrightarrow> \<forall>pre c post. 128 \<le> c \<and> is_space c \<longrightarrow> U pre c post = [c]
     \<Longrightarrow> lower_from U p s = s"
proof (induction s arbitrary: p)
  case Nil
  then show ?case by simp
next
  case (Cons c cs)
  have sp: "is_space c" using Cons.prems(1) by simp
  have "lower_cp U p c cs = [c]"
  proof (cases "c < 128")
    case True
    with sp show ?thesis by (auto simp: lower_cp_def is_space_def)
  next
    case False
    with sp Cons.prems(2) show ?thesis by (simp add: lower_cp_def)
  qed
  with Cons show ?case by simp
qed


section \<open>The source functions against the keyword tables\<close>

lemma respond_simps:
  "respond ev q Hours = (Inr hours_template, [])"
  "respond ev q Volunteer = (Inr volunteer_template, [])"
  "respond ev q Donate = (Inr donate_template, [])"
  "respond ev q Programs = (Inr programs_template, [])"
  "respond ev q Contact = (Inr contact_template, [])"
  "respond ev q Emergency = (Inr emergency_template, [])"
  "respond ev q Unmatched = ai_fallback ev q"
  by (simp_all add: respond_def)

lemma get_chatbot_answer_classify:
  "get_chatbot_answer U ev q = respond ev q (classify keyword_table (lower U q))"
  unfolding get_chatbot_answer_def keyword_table_def Let_def classify.simps
    list_ex_Nil_iff list_ex_Cons_iff simp_thms
  by (simp only: if_distrib [of "respond ev q"] respond_simps)

lemma app_get_chatbot_answer_classify:
  "app_get_chatbot_answer U q = app_respond (lower U q) (classify app_keyword_table (lower U q))"
  unfolding app_get_chatbot_answer_def app_keyword_table_def Let_def classify.simps
    list_ex_Nil_iff list_ex_Cons_iff simp_thms
  by (simp only: if_distrib [of "app_respond (lower U q)"] app_respond.simps)

lemma classify_Unmatched_iff:
  "Unmatched \<notin> fst ` set tbl
     \<Longrightarrow> classify tbl s = Unmatched \<longleftrightarrow> \<not> list_ex (contains s) (concat (map snd tbl))"
  by (induction tbl) (auto simp: list_ex_iff split: if_splits)

lemma keyword_table_Unmatched: "Unmatched \<notin> fst ` set keyword_table"
  by (simp add: keyword_table_def)

lemma app_keyword_table_Unmatched: "Unmatched \<notin> fst ` set app_keyword_table"
  by (simp add: app_keyword_table_def)

lemma classify_Hours:
  "contains s (of_ascii ''hours'') \<or> contains s (of_ascii ''time'')
     \<Longrightarrow> classify keyword_table s = Hours \<and> classify app_keyword_table s = Hours"
  by (auto simp: keyword_table_def app_keyword_table_def)

lemma keyword_letters:
  "\<forall>k\<in>set (of_ascii ''hours''). 97 \<le> k \<and> k \<le> 122"
  "\<forall>k\<in>set (of_ascii ''time''). 97 \<le> k \<and> k \<le> 122"
  by (simp_all add: of_ascii_def)


section \<open>The fallback branch\<close>

lemma ai_fallback_no_backend:
  "ai_model ev = None \<or> \<not> HF_AVAILABLE ev \<Longrightarrow> ai_fallback ev q = (Inr default_message, [])"
  by (auto simp: ai_fallback_def)

lemma generate_ai_response_Some:
  "ai_model ev = Some m \<Longrightarrow> HF_AVAILABLE ev \<Longrightarrow>
   generate_ai_response ev q =
     (case run_model m (nonprofit_context @ q) of
        (Inl e, calls) \<Rightarrow> (Inr None, calls)
      | (Inr d, calls) \<Rightarrow> (Inr (Some (clean_response (nonprofit_context @ q) d)), calls))"
  by (simp add: generate_ai_response_def generate_try_def Let_def split: prod.splits sum.splits)

lemma generate_ai_response_returns: "\<exists>r. fst (generate_ai_response ev q) = Inr r"
  by (simp add: generate_ai_response_def split: option.splits prod.splits sum.splits)

text \<open>
  With a backend in place the fallback is decided by what the model run gives: the
  default message when it raises or when nothing is left of the decoded text, the
  generated text between the two fixed parts otherwise.
\<close>

lemma ai_fallback_Some:
  "ai_model ev = Some m \<Longrightarrow> HF_AVAILABLE ev \<Longrightarrow>
   ai_fallback ev q =
     (case run_model m (nonprofit_context @ q) of
        (Inl e, calls) \<Rightarrow> (Inr default_message, calls)
      | (Inr d, calls) \<Rightarrow>
          (if clean_response (nonprofit_context @ q) d \<noteq> []
              \<and> length (strip (clean_response (nonprofit_context @ q) d)) > 0
           then (Inr (ai_prefix @ clean_response (nonprofit_context @ q) d @ ai_suffix), calls)
           else (Inr default_message, calls)))"
  by (simp add: ai_fallback_def generate_ai_response_Some split: prod.splits sum.splits)

lemma ai_fallback_shape:
  "\<exists>r. fst (ai_fallback ev q) = Inr r
       \<and> (r = default_message \<or> (\<exists>g. g \<noteq> [] \<and> r = ai_prefix @ g @ ai_suffix))"
proof (cases "ai_model ev")
  case None
  then show ?thesis by (simp add: ai_fallback_no_backend)
next
  case (Some m)
  show ?thesis
  proof (cases "HF_AVAILABLE ev")
    case False
    then show ?thesis by (simp add: ai_fallback_no_backend)
  next
    case True
    show ?thesis
      unfolding ai_fallback_Some [OF Some True]
      by (auto split: prod.splits sum.splits)
  qed
qed

section \<open>The response texts\<close>

lemma template_heads:
  "hd hours_template = 128338" "hd volunteer_template = 129309"
  "hd donate_template = 128157" "hd programs_template = 128203"
  "hd contact_template = 128222" "hd emergency_template = 127384"
  "hd default_message = 84" "hd (ai_prefix @ g @ ai_suffix) = 129302"
  by (simp_all add: hours_template_def volunteer_template_def donate_template_def
      programs_template_def contact_template_def emergency_template_def
      default_message_def ai_prefix_def of_ascii_def)

lemma templates_nonempty:
  "hours_template \<noteq> []" "volunteer_template \<noteq> []" "donate_template \<noteq> []"
  "programs_template \<noteq> []" "contact_template \<noteq> []" "emergency_template \<noteq> []"
  "default_message \<noteq> []" "ai_prefix @ g @ ai_suffix \<noteq> []"
  by (simp_all add: hours_template_def volunteer_template_def donate_template_def
      programs_template_def contact_template_def emergency_template_def
      default_message_def ai_prefix_def of_ascii_def)

lemma app_template_prefixes:
  "take 6 app_hours_template = of_ascii ''We're ''"
  "take 6 app_volunteer_template = of_ascii ''We'd l''"
  "take 6 app_donate_template = of_ascii ''Thank ''"
  "take 6 app_programs_template = of_ascii ''We off''"
  "take 6 (app_unmatched_message s) = of_ascii ''Thanks''"
  by (simp_all add: app_hours_template_def app_volunteer_template_def
      app_donate_template_def app_programs_template_def app_unmatched_message_def
      of_ascii_def)

lemma app_respond_nonempty: "app_respond s c \<noteq> []"
  by (cases c)
     (simp_all add: app_hours_template_def app_volunteer_template_def
      app_donate_template_def app_programs_template_def app_unmatched_message_def
      of_ascii_def)


section \<open>One response for each category\<close>

lemma respond_inj:
  assumes "respond ev q c = respond ev q c'"
  shows "c = c'"
proof -
  obtain r where r: "fst (ai_fallback ev q) = Inr r"
    and "r = default_message \<or> (\<exists>g. g \<noteq> [] \<and> r = ai_prefix @ g @ ai_suffix)"
    using ai_fallback_shape by blast
  then have h: "hd r = 84 \<or> hd r = 129302"
    using template_heads by auto
  have key: "fst (respond ev q x) = Inr (if x = Unmatched then r else template x)" for x
    using r by (cases x) (simp_all add: respond_simps)
  have "Inr (if c = Unmatched then r else template c)
        = (Inr (if c' = Unmatched then r else template c') :: exn + pystr)"
    using assms key by metis
  then have "hd (if c = Unmatched then r else template c)
             = hd (if c' = Unmatched then r else template c')"
    by simp
  then show ?thesis
    using h by (cases c; cases c') (simp_all add: template_heads)
qed

lemma app_respond_inj:
  assumes "app_respond s c = app_respond s c'"
    and "c \<in> set [Hours, Volunteer, Donate, Programs, Unmatched]"
    and "c' \<in> set [Hours, Volunteer, Donate, Programs, Unmatched]"
  shows "c = c'"
proof -
  have "take 6 (app_respond s c) = take 6 (app_respond s c')"
    using assms(1) by simp
  then show ?thesis
    using assms(2,3)
    by (cases c; cases c') (simp_all add: app_template_prefixes, simp_all add: of_ascii_def)
qed

lemma classify_app_range:
  "classify app_keyword_table s \<in> set [Hours, Volunteer, Donate, Programs, Unmatched]"
  by (simp add: app_keyword_table_def)

section \<open>The model run\<close>







section \<open>The claims\<close>

text \<open>
  C1 (as amended). The answer function of \<^verbatim>\<open>AI_app.py\<close> goes through six categories in
  the order hours/time, volunteer, donate, programs/services, contact/phone/email,
  emergency/crisis/urgent: its result is the response of the first category of that
  table one of whose keywords is a substring of the lowered input, and the fallback
  response when none is. The answer function of \<^verbatim>\<open>app.py\<close> does the same over the first
  four categories only; there a question that names only a contact or an emergency
  keyword is unmatched.
\<close>

theorem C1_first_match_in_order:
  "get_chatbot_answer U ev q = respond ev q (classify keyword_table (lower U q))
   \<and> map fst keyword_table = [Hours, Volunteer, Donate, Programs, Contact, Emergency]
   \<and> app_get_chatbot_answer U q
       = app_respond (lower U q) (classify app_keyword_table (lower U q))
   \<and> app_keyword_table = take 4 keyword_table"
proof -
  have "map fst keyword_table = [Hours, Volunteer, Donate, Programs, Contact, Emergency]"
    by (simp add: keyword_table_def)
  moreover have "app_keyword_table = take 4 keyword_table"
    by (simp add: app_keyword_table_def keyword_table_def)
  ultimately show ?thesis
    using get_chatbot_answer_classify app_get_chatbot_answer_classify by blast
qed

text \<open>
  The claim as it stands fails for \<^verbatim>\<open>app.py\<close>: the question \<^verbatim>\<open>phone\<close> is of the contact
  category by the six-category table, and \<^verbatim>\<open>AI_app.py\<close> answers it with the contact
  template, while \<^verbatim>\<open>app.py\<close> answers with its message for unmatched questions.
\<close>

theorem C1_app_has_no_contact_category:
  "classify keyword_table (lower ascii_only_lower (of_ascii ''phone'')) = Contact
   \<and> fst (get_chatbot_answer ascii_only_lower no_backend (of_ascii ''phone''))
       = Inr contact_template
   \<and> app_get_chatbot_answer ascii_only_lower (of_ascii ''phone'')
       = app_unmatched_message (of_ascii ''phone'')"
  by (simp add: keyword_table_def get_chatbot_answer_def app_get_chatbot_answer_def
      lower_def lower_cp_def of_ascii_def)

text \<open>
  C2. Whenever \<^verbatim>\<open>hours\<close> or \<^verbatim>\<open>time\<close> occurs in the question, in any mixture of upper and
  lower case, both answer functions return their hours template, whatever else the
  question contains and whatever the backend is; no backend call is made. So it is for
  the question \<^verbatim>\<open>What are your volunteer hours?\<close>.
\<close>

theorem C2_hours_before_all_others:
  "(occurs_any_case q (of_ascii ''hours'') \<or> occurs_any_case q (of_ascii ''time'')
      \<longrightarrow> get_chatbot_answer U ev q = (Inr hours_template, [])
          \<and> app_get_chatbot_answer U q = app_hours_template)
   \<and> get_chatbot_answer U ev (of_ascii ''What are your volunteer hours?'')
       = (Inr hours_template, [])
   \<and> app_get_chatbot_answer U (of_ascii ''What are your volunteer hours?'')
       = app_hours_template"
proof -
  have gen: "get_chatbot_answer U ev t = (Inr hours_template, [])
             \<and> app_get_chatbot_answer U t = app_hours_template"
    if "occurs_any_case t (of_ascii ''hours'') \<or> occurs_any_case t (of_ascii ''time'')" for t
  proof -
    from that have "contains (lower U t) (of_ascii ''hours'')
                    \<or> contains (lower U t) (of_ascii ''time'')"
      using occurs_any_case_lower keyword_letters by blast
    then have "classify keyword_table (lower U t) = Hours"
      and "classify app_keyword_table (lower U t) = Hours"
      using classify_Hours by blast+
    then show ?thesis
      by (simp add: get_chatbot_answer_classify app_get_chatbot_answer_classify respond_simps)
  qed
  have "occurs_any_case (of_ascii ''What are your volunteer hours?'') (of_ascii ''hours'')"
    by (simp add: of_ascii_def)
  with gen show ?thesis by blast
qed

theorem C2_witness:
  "occurs_any_case (of_ascii ''URGENT: what TIME can I donate?'') (of_ascii ''time'')
   \<and> get_chatbot_answer ascii_only_lower (with_model raising_model)
         (of_ascii ''URGENT: what TIME can I donate?'') = (Inr hours_template, [])
   \<and> app_get_chatbot_answer ascii_only_lower (of_ascii ''URGENT: what TIME can I donate?'')
       = app_hours_template"
proof -
  have h: "occurs_any_case (of_ascii ''URGENT: what TIME can I donate?'') (of_ascii ''time'')"
    by (simp add: of_ascii_def)
  show ?thesis
    using h C2_hours_before_all_others
      [of "of_ascii ''URGENT: what TIME can I donate?''" ascii_only_lower
          "with_model raising_model"]
    by blast
qed

text \<open>
  C3 (as amended). In \<^verbatim>\<open>AI_app.py\<close>, when no backend is configured (the libraries are
  missing or no model was loaded), every unmatched question is answered with one fixed
  default message and no backend call; the question \<^verbatim>\<open>Hello, how are you?\<close> gets exactly that
  message. In \<^verbatim>\<open>app.py\<close> the answer to an unmatched question is not a constant: it is the
  fixed text around a quotation of the lowered question.
\<close>

theorem C3_unmatched_without_backend:
  "(classify keyword_table (lower U q) = Unmatched
      \<and> (ai_model ev = None \<or> \<not> HF_AVAILABLE ev)
      \<longrightarrow> get_chatbot_answer U ev q = (Inr default_message, []))
   \<and> get_chatbot_answer U no_backend (of_ascii ''Hello, how are you?'')
       = (Inr default_message, [])
   \<and> (classify app_keyword_table (lower U q) = Unmatched
      \<longrightarrow> app_get_chatbot_answer U q = app_unmatched_message (lower U q))"
proof -
  have "get_chatbot_answer U ev q = (Inr default_message, [])"
    if "classify keyword_table (lower U q) = Unmatched"
      and "ai_model ev = None \<or> \<not> HF_AVAILABLE ev"
    using that by (simp add: get_chatbot_answer_classify respond_simps ai_fallback_no_backend)
  moreover have "classify keyword_table (lower U (of_ascii ''Hello, how are you?'')) = Unmatched"
    by (simp add: keyword_table_def lower_def lower_cp_def of_ascii_def)
  then have "get_chatbot_answer U no_backend (of_ascii ''Hello, how are you?'')
             = (Inr default_message, [])"
    by (simp add: get_chatbot_answer_classify respond_simps ai_fallback_no_backend
        no_backend_def)
  moreover have "app_get_chatbot_answer U q = app_unmatched_message (lower U q)"
    if "classify app_keyword_table (lower U q) = Unmatched"
    using that by (simp add: app_get_chatbot_answer_classify)
  ultimately show ?thesis by blast
qed

theorem C3_witness:
  "classify keyword_table (lower ascii_only_lower (of_ascii ''Good morning'')) = Unmatched
   \<and> ai_model no_backend = None
   \<and> get_chatbot_answer ascii_only_lower no_backend (of_ascii ''Good morning'')
       = (Inr default_message, [])
   \<and> classify app_keyword_table (lower ascii_only_lower (of_ascii ''Good morning''))
       = Unmatched
   \<and> app_get_chatbot_answer ascii_only_lower (of_ascii ''Good morning'')
       = app_unmatched_message (of_ascii ''good morning'')"
proof -
  have l: "lower ascii_only_lower (of_ascii ''Good morning'') = of_ascii ''good morning''"
    by (simp add: lower_def lower_cp_def of_ascii_def)
  have u: "classify keyword_table (of_ascii ''good morning'') = Unmatched"
    "classify app_keyword_table (of_ascii ''good morning'') = Unmatched"
    by (simp_all add: keyword_table_def app_keyword_table_def of_ascii_def)
  have n: "ai_model no_backend = None" by (simp add: no_backend_def)
  show ?thesis
    using C3_unmatched_without_backend [of ascii_only_lower "of_ascii ''Good morning''" no_backend]
      l u n
    by simp
qed

text \<open>
  The claim as it stands fails for \<^verbatim>\<open>app.py\<close>, which has no backend at all: two unmatched
  questions get two different answers, each quoting its own question.
\<close>

theorem C3_app_answer_quotes_the_question:
  "classify app_keyword_table (lower ascii_only_lower (of_ascii ''Hello, how are you?''))
     = Unmatched
   \<and> classify app_keyword_table (lower ascii_only_lower (of_ascii ''Good morning''))
     = Unmatched
   \<and> app_get_chatbot_answer ascii_only_lower (of_ascii ''Hello, how are you?'')
     = of_ascii ''Thanks for asking about '' @ [39] @ of_ascii ''hello, how are you?'' @ [39]
       @ of_ascii ''. Try asking about our hours, volunteer opportunities, donations, or programs!''
   \<and> app_get_chatbot_answer ascii_only_lower (of_ascii ''Good morning'')
     = of_ascii ''Thanks for asking about '' @ [39] @ of_ascii ''good morning'' @ [39]
       @ of_ascii ''. Try asking about our hours, volunteer opportunities, donations, or programs!''
   \<and> app_get_chatbot_answer ascii_only_lower (of_ascii ''Hello, how are you?'')
     \<noteq> app_get_chatbot_answer ascii_only_lower (of_ascii ''Good morning'')"
  by (simp add: app_keyword_table_def app_get_chatbot_answer_def app_unmatched_message_def
      lower_def lower_cp_def of_ascii_def)

text \<open>
  C4 (as amended). A question that is empty or consists of whitespace only (the case
  tables of the runtime leave whitespace as it is) has no category in either program.
  \<^verbatim>\<open>AI_app.py\<close> without a backend returns the fixed default message for it. \<^verbatim>\<open>app.py\<close>
  returns its message for unmatched questions with the blank question itself between the
  quotes, so its answer is not one default: it varies with the blank question. Both
  return a value, neither raises.
\<close>

theorem C4_blank_question_is_unmatched:
  assumes "\<forall>c\<in>set q. is_space c"
    and "\<forall>pre c post. 128 \<le> c \<and> is_space c \<longrightarrow> U pre c post = [c]"
  shows "classify keyword_table (lower U q) = Unmatched
         \<and> classify app_keyword_table (lower U q) = Unmatched
         \<and> (ai_model ev = None \<or> \<not> HF_AVAILABLE ev
              \<longrightarrow> get_chatbot_answer U ev q = (Inr default_message, []))
         \<and> app_get_chatbot_answer U q = app_unmatched_message q"
proof -
  have low: "lower U q = q"
    using assms by (simp add: lower_def lower_from_spaces)
  have no: "\<not> contains q k" if "k \<noteq> []" "\<not> is_space (hd k)" for k
  proof
    assume "contains q k"
    then have "set k \<subseteq> set q" by (rule contains_set)
    moreover have "hd k \<in> set k" using that(1) by simp
    ultimately have "is_space (hd k)" using assms(1) by blast
    with that(2) show False by simp
  qed
  have "\<not> list_ex (contains q) (concat (map snd keyword_table))"
    by (simp add: keyword_table_def no of_ascii_def is_space_def)
  moreover have "\<not> list_ex (contains q) (concat (map snd app_keyword_table))"
    by (simp add: app_keyword_table_def no of_ascii_def is_space_def)
  ultimately have u: "classify keyword_table q = Unmatched"
    "classify app_keyword_table q = Unmatched"
    using classify_Unmatched_iff keyword_table_Unmatched app_keyword_table_Unmatched
    by blast+
  show ?thesis
    using u low
    by (simp add: get_chatbot_answer_classify app_get_chatbot_answer_classify respond_simps
        ai_fallback_no_backend)
qed

theorem C4_witness:
  "list_all is_space [32, 9, 160, 10]
   \<and> get_chatbot_answer ascii_only_lower no_backend [32, 9, 160, 10]
       = (Inr default_message, [])
   \<and> app_get_chatbot_answer ascii_only_lower [32, 9, 160, 10]
       = app_unmatched_message [32, 9, 160, 10]
   \<and> get_chatbot_answer ascii_only_lower no_backend [] = (Inr default_message, [])
   \<and> app_get_chatbot_answer ascii_only_lower [] = app_unmatched_message []"
proof -
  have s: "\<forall>c\<in>set [32, 9, 160, 10]. is_space c" "\<forall>c\<in>set []. is_space c"
    by (simp_all add: is_space_def)
  have t: "\<forall>pre c post. 128 \<le> c \<and> is_space c \<longrightarrow> ascii_only_lower pre c post = [c]"
    by (simp add: ascii_only_lower_def)
  have n: "ai_model no_backend = None" by (simp add: no_backend_def)
  show ?thesis
    using C4_blank_question_is_unmatched [OF s(1) t, of no_backend]
      C4_blank_question_is_unmatched [OF s(2) t, of no_backend] s n
    by (simp add: list_all_iff)
qed

text \<open>
  The claim as it stands fails for \<^verbatim>\<open>app.py\<close>: the empty question and a single space
  are both blank and both unmatched, and they get two different answers, so there is no
  one default that the answer to a blank question equals.
\<close>

theorem C4_app_blank_answers_differ:
  "list_all is_space [] \<and> list_all is_space [32]
   \<and> classify app_keyword_table (lower ascii_only_lower []) = Unmatched
   \<and> classify app_keyword_table (lower ascii_only_lower [32]) = Unmatched
   \<and> app_get_chatbot_answer ascii_only_lower []
     = of_ascii ''Thanks for asking about '' @ [39, 39]
       @ of_ascii ''. Try asking about our hours, volunteer opportunities, donations, or programs!''
   \<and> app_get_chatbot_answer ascii_only_lower [32]
     = of_ascii ''Thanks for asking about '' @ [39, 32, 39]
       @ of_ascii ''. Try asking about our hours, volunteer opportunities, donations, or programs!''
   \<and> app_get_chatbot_answer ascii_only_lower []
     \<noteq> app_get_chatbot_answer ascii_only_lower [32]"
  by (simp add: is_space_def app_keyword_table_def app_get_chatbot_answer_def
      app_unmatched_message_def lower_def lower_cp_def of_ascii_def)

text \<open>
  C5. For every question and every state of the backend (absent, present, raising in any
  of its operations) the answer function of \<^verbatim>\<open>AI_app.py\<close> returns a string that is not empty;
  it never ends in an exception. The answer function of \<^verbatim>\<open>app.py\<close> returns a string that is
  not empty either.
\<close>

theorem C5_answer_is_a_nonempty_string:
  "(\<exists>r. fst (get_chatbot_answer U ev q) = Inr r \<and> r \<noteq> [])
   \<and> app_get_chatbot_answer U q \<noteq> []"
proof -
  have "\<exists>r. fst (respond ev q c) = Inr r \<and> r \<noteq> []" for c
  proof (cases c)
    case Unmatched
    obtain r where "fst (ai_fallback ev q) = Inr r"
      and "r = default_message \<or> (\<exists>g. g \<noteq> [] \<and> r = ai_prefix @ g @ ai_suffix)"
      using ai_fallback_shape by blast
    then show ?thesis using Unmatched templates_nonempty by (auto simp: respond_simps)
  qed (simp_all add: respond_simps templates_nonempty)
  then show ?thesis
    by (simp add: get_chatbot_answer_classify app_get_chatbot_answer_classify
        app_respond_nonempty)
qed






text \<open>
  C8. Each question has exactly one category: the answer is the response of one category
  and of no other. Which one it is does not depend on the state of the backend, so that
  asking the same question again selects the same category. In \<^verbatim>\<open>app.py\<close> the same holds
  over its five categories.
\<close>

theorem C8_exactly_one_category:
  "(\<exists>!c. get_chatbot_answer U ev q = respond ev q c)
   \<and> (get_chatbot_answer U ev q = respond ev q c)
       = (get_chatbot_answer U ev' q = respond ev' q c)
   \<and> (\<exists>!c. c \<in> set [Hours, Volunteer, Donate, Programs, Unmatched]
           \<and> app_get_chatbot_answer U q = app_respond (lower U q) c)"
proof -
  have one: "(get_chatbot_answer U e q = respond e q x)
             = (x = classify keyword_table (lower U q))" for e x
    using respond_inj get_chatbot_answer_classify by metis
  have "\<exists>!c. get_chatbot_answer U ev q = respond ev q c"
    by (simp add: one)
  moreover have "(get_chatbot_answer U ev q = respond ev q c)
                 = (get_chatbot_answer U ev' q = respond ev' q c)"
    using one by simp
  moreover have "\<exists>!c. c \<in> set [Hours, Volunteer, Donate, Programs, Unmatched]
                     \<and> app_get_chatbot_answer U q = app_respond (lower U q) c"
  proof (rule ex1I [of _ "classify app_keyword_table (lower U q)"])
    show "classify app_keyword_table (lower U q)
            \<in> set [Hours, Volunteer, Donate, Programs, Unmatched]
          \<and> app_get_chatbot_answer U q
            = app_respond (lower U q) (classify app_keyword_table (lower U q))"
      using classify_app_range app_get_chatbot_answer_classify by blast
  next
    fix c
    assume "c \<in> set [Hours, Volunteer, Donate, Programs, Unmatched]
            \<and> app_get_chatbot_answer U q = app_respond (lower U q) c"
    then show "c = classify app_keyword_table (lower U q)"
      using app_respond_inj [of "lower U q" c "classify app_keyword_table (lower U q)"]
        classify_app_range app_get_chatbot_answer_classify
      by metis
  qed
  ultimately show ?thesis by blast
qed

text \<open>
  C9. When a keyword of some category occurs in the lowered question, the answer
  function of \<^verbatim>\<open>AI_app.py\<close> returns the template of the category and makes no call to
  the backend; its result is the same under any two states of the backend.
\<close>

theorem C9_backend_only_when_unmatched:
  assumes "list_ex (contains (lower U q)) (concat (map snd keyword_table))"
  shows "classify keyword_table (lower U q) \<noteq> Unmatched
         \<and> get_chatbot_answer U ev q
             = (Inr (template (classify keyword_table (lower U q))), [])
         \<and> get_chatbot_answer U ev q = get_chatbot_answer U ev' q"
proof -
  have n: "classify keyword_table (lower U q) \<noteq> Unmatched"
    using assms classify_Unmatched_iff [OF keyword_table_Unmatched] by blast
  then have "respond e q (classify keyword_table (lower U q))
             = (Inr (template (classify keyword_table (lower U q))), [])" for e
    by (simp add: respond_def)
  with n show ?thesis by (simp add: get_chatbot_answer_classify)
qed

theorem C9_witness:
  "list_ex (contains (lower ascii_only_lower (of_ascii ''Can I volunteer this weekend?'')))
     (concat (map snd keyword_table))
   \<and> get_chatbot_answer ascii_only_lower (with_model raising_model)
        (of_ascii ''Can I volunteer this weekend?'') = (Inr volunteer_template, [])
   \<and> get_chatbot_answer ascii_only_lower no_backend
        (of_ascii ''Can I volunteer this weekend?'') = (Inr volunteer_template, [])
   \<and> list_ex (contains (lower ascii_only_lower (of_ascii ''DONATE NOW'')))
     (concat (map snd keyword_table))
   \<and> get_chatbot_answer ascii_only_lower (with_model raising_model) (of_ascii ''DONATE NOW'')
       = (Inr donate_template, [])"
proof -
  let ?v = "of_ascii ''Can I volunteer this weekend?''"
  let ?d = "of_ascii ''DONATE NOW''"
  have v: "list_ex (contains (lower ascii_only_lower ?v)) (concat (map snd keyword_table))"
    and d: "list_ex (contains (lower ascii_only_lower ?d)) (concat (map snd keyword_table))"
    by (simp_all add: keyword_table_def lower_def lower_cp_def of_ascii_def)
  have cv: "classify keyword_table (lower ascii_only_lower ?v) = Volunteer"
    and cd: "classify keyword_table (lower ascii_only_lower ?d) = Donate"
    by (simp_all add: keyword_table_def lower_def lower_cp_def of_ascii_def)
  have a1: "get_chatbot_answer ascii_only_lower (with_model raising_model) ?v
            = (Inr volunteer_template, [])"
    using C9_backend_only_when_unmatched [OF v, of "with_model raising_model" no_backend] cv
    by simp
  have a2: "get_chatbot_answer ascii_only_lower no_backend ?v = (Inr volunteer_template, [])"
    using C9_backend_only_when_unmatched [OF v, of no_backend "with_model raising_model"] cv
    by simp
  have a3: "get_chatbot_answer ascii_only_lower (with_model raising_model) ?d
            = (Inr donate_template, [])"
    using C9_backend_only_when_unmatched [OF d, of "with_model raising_model" no_backend] cd
    by simp
  show ?thesis using v d a1 a2 a3 by simp
qed

text \<open>
  C10. In both programs the upload handler assigns the \<^verbatim>\<open>'data'\<close> entry of the session state
  as its last step, after the file has been parsed and shown. When parsing raises, the
  session state is as it was before, with the stored table or without one, and the page
  shows the error message. In every run the session state is either unchanged or holds
  the table that parsing has just returned.
\<close>

theorem C10_upload_stores_only_parsed_data:
  "(read_csv f = Inl e
      \<longrightarrow> app_upload read_csv raises st (Some f) = (st, [Error_reading e])
          \<and> AI_upload read_csv raises st (Some f) = (st, [Error_processing e, Info_tip]))
   \<and> (fst (app_upload read_csv raises st up) = st
       \<or> (\<exists>f d. up = Some f \<and> read_csv f = Inr d
             \<and> fst (app_upload read_csv raises st up) = st\<lparr>data := Some d\<rparr>))
   \<and> (fst (AI_upload read_csv raises st up) = st
       \<or> (\<exists>f d. up = Some f \<and> read_csv f = Inr d
             \<and> fst (AI_upload read_csv raises st up) = st\<lparr>data := Some d\<rparr>))"
proof -
  have a: "app_upload read_csv raises st (Some f) = (st, [Error_reading e])
           \<and> AI_upload read_csv raises st (Some f) = (st, [Error_processing e, Info_tip])"
    if "read_csv f = Inl e"
    using that by (simp add: app_upload_def AI_upload_def)
  have b: "fst (app_upload read_csv raises st up) = st
           \<or> (\<exists>f d. up = Some f \<and> read_csv f = Inr d
                 \<and> fst (app_upload read_csv raises st up) = st\<lparr>data := Some d\<rparr>)"
  proof (cases up)
    case None
    then show ?thesis by (simp add: app_upload_def)
  next
    case (Some f)
    show ?thesis
    proof (cases "read_csv f")
      case (Inl e)
      with Some show ?thesis by (simp add: app_upload_def)
    next
      case (Inr d)
      obtain shown r where
        "show_all raises [Success_uploaded (length (rows d)) (length (columns d)),
                          Write_preview, Dataframe (take 5 (rows d))] = (shown, r)"
        by (rule prod.exhaust)
      with Some Inr show ?thesis
        by (cases r) (simp_all add: app_upload_def del: show_all.simps)
    qed
  qed
  have c: "fst (AI_upload read_csv raises st up) = st
           \<or> (\<exists>f d. up = Some f \<and> read_csv f = Inr d
                 \<and> fst (AI_upload read_csv raises st up) = st\<lparr>data := Some d\<rparr>)"
  proof (cases up)
    case None
    then show ?thesis by (simp add: AI_upload_def)
  next
    case (Some f)
    show ?thesis
    proof (cases "read_csv f")
      case (Inl e)
      with Some show ?thesis by (simp add: AI_upload_def)
    next
      case (Inr d)
      have "fst (case show_all raises ws of
                   (shown, Some e) \<Rightarrow> (st, shown @ [Error_processing e, Info_tip])
                 | (shown, None) \<Rightarrow> (st\<lparr>data := Some d\<rparr>, shown)) = st
            \<or> fst (case show_all raises ws of
                   (shown, Some e) \<Rightarrow> (st, shown @ [Error_processing e, Info_tip])
                 | (shown, None) \<Rightarrow> (st\<lparr>data := Some d\<rparr>, shown)) = st\<lparr>data := Some d\<rparr>"
        for ws
        by (cases "show_all raises ws") (simp split: option.splits)
      with Some Inr show ?thesis
        by (simp add: AI_upload_def del: show_all.simps)
    qed
  qed
  show ?thesis using a b c by blast
qed

theorem C10_witness:
  "failing_read_csv \<lparr>size_bytes = 3, content = [1, 2, 3]\<rparr>
     = Inl (Exception (of_ascii ''Error tokenizing data''))
   \<and> app_upload failing_read_csv (\<lambda>w. None) \<lparr>data = Some sample_table\<rparr>
        (Some \<lparr>size_bytes = 3, content = [1, 2, 3]\<rparr>)
     = (\<lparr>data = Some sample_table\<rparr>,
        [Error_reading (Exception (of_ascii ''Error tokenizing data''))])
   \<and> AI_upload failing_read_csv (\<lambda>w. None) \<lparr>data = None\<rparr>
        (Some \<lparr>size_bytes = 3, content = [1, 2, 3]\<rparr>)
     = (\<lparr>data = None\<rparr>,
        [Error_processing (Exception (of_ascii ''Error tokenizing data'')), Info_tip])
   \<and> app_upload (\<lambda>f. Inr sample_table) (\<lambda>w. None) \<lparr>data = None\<rparr>
        (Some \<lparr>size_bytes = 3, content = [1, 2, 3]\<rparr>)
     = (\<lparr>data = Some sample_table\<rparr>,
        [Success_uploaded 1 2, Write_preview, Dataframe (rows sample_table)])"
proof -
  have h: "failing_read_csv \<lparr>size_bytes = 3, content = [1, 2, 3]\<rparr>
           = Inl (Exception (of_ascii ''Error tokenizing data''))"
    by (simp add: failing_read_csv_def)
  show ?thesis
    using h
      C10_upload_stores_only_parsed_data [of failing_read_csv
        "\<lparr>size_bytes = 3, content = [1, 2, 3]\<rparr>"
        "Exception (of_ascii ''Error tokenizing data'')" "\<lambda>w. None"
        "\<lparr>data = Some sample_table\<rparr>"]
      C10_upload_stores_only_parsed_data [of failing_read_csv
        "\<lparr>size_bytes = 3, content = [1, 2, 3]\<rparr>"
        "Exception (of_ascii ''Error tokenizing data'')" "\<lambda>w. None"
        "\<lparr>data = None\<rparr>"]
    by (simp add: app_upload_def sample_table_def)
qed


end
